theory Spec2Isabelle
  imports Complex_Main "HOL-Library.Char_ord" "HOL-Library.List_Lexorder"
    "HOL-Library.Product_Lexorder" "HOL-Library.Multiset"
begin

section \<open>Strings\<close>

text \<open>
  A Python \<open>str\<close> is modelled by its UTF-8 encoding, a \<open>string\<close> of bytes. Substring
  search and lexicographic comparison give the same answers on the encoding as on the code
  points. Text outside ASCII is written byte by byte: c with cedilla is \<open>C3 A7\<close>.
\<close>

fun starts_with :: "string \<Rightarrow> string \<Rightarrow> bool" where
  "starts_with s [] = True"
| "starts_with [] (k # ks) = False"
| "starts_with (c # cs) (k # ks) = (c = k \<and> starts_with cs ks)"

text \<open>Python's \<open>needle in haystack\<close> on strings; the haystack is the first argument.\<close>

fun str_contains :: "string \<Rightarrow> string \<Rightarrow> bool" where
  "str_contains [] k = (k = [])"
| "str_contains (c # cs) k = (starts_with (c # cs) k \<or> str_contains cs k)"

text \<open>
  \<open>str.lower()\<close>. The model lowers the letters of ASCII and of the Latin-1 supplement
  (\<open>U+00C0\<close> to \<open>U+00DE\<close> without the multiplication sign \<open>U+00D7\<close>, in UTF-8 the lead
  byte \<open>C3\<close> with a second byte from \<open>80\<close> to \<open>9E\<close>), the alphabet of the Portuguese
  messages this program reads. Python's table covers the other scripts of Unicode as well;
  those bytes are left as they are here.
\<close>

definition lower_ascii :: "char \<Rightarrow> char" where
  "lower_ascii c =
     (let n = (of_char c :: nat) in if 65 \<le> n \<and> n \<le> 90 then char_of (n + 32) else c)"

definition latin1_upper :: "char \<Rightarrow> bool" where
  "latin1_upper d = (let n = (of_char d :: nat) in 128 \<le> n \<and> n \<le> 158 \<and> n \<noteq> 151)"

fun lower :: "string \<Rightarrow> string" where
  "lower [] = []"
| "lower [c] = [lower_ascii c]"
| "lower (c # d # cs) =
     (if c = CHR 0xC3 \<and> latin1_upper d
      then c # char_of ((of_char d :: nat) + 32) # lower cs
      else lower_ascii c # lower (d # cs))"

section \<open>Export-intent detection\<close>

text \<open>
  The list \<open>keywords\<close> of the source, in its order. Three entries have an accented
  letter: c with cedilla (\<open>C3 A7\<close>), o with acute (\<open>C3 B3\<close>), a with acute (\<open>C3 A1\<close>).
\<close>

definition export_keywords :: "string list" where
  "export_keywords =
     [''planilha'', ''excel'', ''exportar'', ''download'', ''baixar'',
      ''or'' @ [CHR 0xC3, CHR 0xA7] @ ''amento'',
      ''relat'' @ [CHR 0xC3, CHR 0xB3] @ ''rio'',
      ''an'' @ [CHR 0xC3, CHR 0xA1] @ ''lise detalhada'',
      ''spreadsheet'']"

text \<open>\<^verbatim>\<open>return any(keyword in user_message.lower() for keyword in keywords)\<close>\<close>

definition parse_ai_request_for_export :: "string \<Rightarrow> bool" where
  "parse_ai_request_for_export user_message =
     list_ex (\<lambda>keyword. str_contains (lower user_message) keyword) export_keywords"

section \<open>The ledger store\<close>

text \<open>
  The table \<open>transacoes\<close>: \<open>id INTEGER PRIMARY KEY AUTOINCREMENT\<close>, \<open>data TEXT\<close>,
  \<open>categoria TEXT\<close>, \<open>tipo TEXT\<close>, \<open>valor REAL\<close>, \<open>descricao TEXT\<close>. The column
  \<open>created_at\<close> is filled by SQLite and never read, so it is left out. A \<open>REAL\<close> and a
  Python \<open>float\<close> are modelled by the real number they denote; sums are exact, so the
  rounding of floating-point addition is outside the model.
\<close>

record db_row =
  r_id :: nat
  r_data :: string
  r_categoria :: string
  r_tipo :: string
  r_valor :: real
  r_descricao :: string

text \<open>
  The database file: the rows in insertion order and the counter that SQLite keeps in
  \<open>sqlite_sequence\<close> for an \<open>AUTOINCREMENT\<close> key (the largest id ever handed out).
\<close>

record database =
  transacoes :: "db_row list"
  seq :: nat

text \<open>\<open>init_database\<close> on a new file: the table exists and is empty.\<close>

definition init_database :: database where
  "init_database = \<lparr>transacoes = [], seq = 0\<rparr>"

text \<open>
  Every store function opens its own connection inside \<open>try\<close>. Whether SQLite raises
  during a call is not decided by the program; it is an input of the model.
\<close>

datatype sqlite = Works | Raises

text \<open>
  A row of the in-memory DataFrame, with the columns \<open>Data\<close>, \<open>Categoria\<close>, \<open>Tipo\<close>,
  \<open>Valor\<close>, \<open>Descri\c{c}\~ao\<close> that \<open>load_transactions_from_db\<close> names. A DataFrame is
  the list of its rows; \<open>df.empty\<close> is \<open>df = []\<close>.
\<close>

record transaction =
  Data :: string
  Categoria :: string
  Tipo :: string
  Valor :: real
  Descricao :: string

type_synonym dataframe = "transaction list"

text \<open>The placeholder "Sem descri\c{c}\~ao", with its two accented letters as UTF-8.\<close>

definition sem_descricao :: string where
  "sem_descricao = ''Sem descri'' @ [CHR 0xC3, CHR 0xA7, CHR 0xC3, CHR 0xA3] @ ''o''"

text \<open>
  Sorting in descending order of a key, by insertion. Rows with equal keys keep their
  order here (a stable sort); SQLite and pandas promise no order among them, and no
  result below depends on it.
\<close>

fun insort_desc :: "('a \<Rightarrow> 'k::linorder) \<Rightarrow> 'a \<Rightarrow> 'a list \<Rightarrow> 'a list" where
  "insort_desc key x [] = [x]"
| "insort_desc key x (y # ys) =
     (if key x < key y then y # insort_desc key x ys else x # y # ys)"

definition sort_desc :: "('a \<Rightarrow> 'k::linorder) \<Rightarrow> 'a list \<Rightarrow> 'a list" where
  "sort_desc key xs = foldr (insort_desc key) xs []"

text \<open>\<^verbatim>\<open>SELECT data, categoria, tipo, valor, descricao FROM transacoes\<close>: the id is not selected.\<close>

definition select_columns :: "db_row \<Rightarrow> transaction" where
  "select_columns r =
     \<lparr>Data = r_data r, Categoria = r_categoria r, Tipo = r_tipo r, Valor = r_valor r,
      Descricao = r_descricao r\<rparr>"

text \<open>
  \<open>load_transactions_from_db\<close>: the query with \<open>ORDER BY data DESC\<close> (a comparison of
  text, byte by byte); on any exception the empty DataFrame with the five columns.
\<close>

definition load_transactions_from_db :: "sqlite \<Rightarrow> database \<Rightarrow> dataframe" where
  "load_transactions_from_db io db =
     (case io of
        Works \<Rightarrow> sort_desc Data (map select_columns (transacoes db))
      | Raises \<Rightarrow> [])"

text \<open>
  The id SQLite gives a new row of an \<open>AUTOINCREMENT\<close> table: one more than the largest
  of the ids in the table and the counter.
\<close>

definition next_id :: "database \<Rightarrow> nat" where
  "next_id db = Suc (foldr max (map r_id (transacoes db)) (seq db))"

text \<open>
  \<open>save_transaction_to_db(categoria, tipo, valor, descricao, data=None)\<close>. The clock
  reading \<open>now\<close> stands for \<open>datetime.now().strftime("%Y-%m-%d %H:%M:%S")\<close>. An exception
  leaves the table as it was (the connection closes without commit) and returns False.
\<close>

definition save_transaction_to_db ::
  "sqlite \<Rightarrow> string \<Rightarrow> database \<Rightarrow> string \<Rightarrow> string \<Rightarrow> real \<Rightarrow> string \<Rightarrow> string option
     \<Rightarrow> bool \<times> database" where
  "save_transaction_to_db io now db categoria tipo valor descricao data =
     (case io of
        Raises \<Rightarrow> (False, db)
      | Works \<Rightarrow>
          (let data' = (case data of None \<Rightarrow> now | Some d \<Rightarrow> d);
               row = \<lparr>r_id = next_id db, r_data = data', r_categoria = categoria,
                      r_tipo = tipo, r_valor = valor,
                      r_descricao = (if descricao = [] then sem_descricao else descricao)\<rparr>
           in (True, \<lparr>transacoes = transacoes db @ [row], seq = next_id db\<rparr>)))"

text \<open>\<open>delete_all_transactions\<close>: \<open>DELETE FROM transacoes\<close>; the counter stays.\<close>

definition delete_all_transactions :: "sqlite \<Rightarrow> database \<Rightarrow> bool \<times> database" where
  "delete_all_transactions io db =
     (case io of
        Raises \<Rightarrow> (False, db)
      | Works \<Rightarrow> (True, db\<lparr>transacoes := []\<rparr>))"



text \<open>
  \<open>add_transaction(data, categoria, tipo, valor, descricao)\<close>: the store first, and the
  row is appended to the DataFrame only when the store accepted it. The result is the new
  DataFrame together with the database after the call.
\<close>

definition add_transaction ::
  "sqlite \<Rightarrow> string \<Rightarrow> database \<Rightarrow> dataframe \<Rightarrow> string \<Rightarrow> string \<Rightarrow> real \<Rightarrow> string
     \<Rightarrow> dataframe \<times> database" where
  "add_transaction io now db data categoria tipo valor descricao =
     (let data_hora = now;
          (saved, db') = save_transaction_to_db io now db categoria tipo valor descricao
                           (Some data_hora)
      in if saved
         then (data @ [\<lparr>Data = data_hora, Categoria = categoria, Tipo = tipo, Valor = valor,
                        Descricao = (if descricao = [] then sem_descricao else descricao)\<rparr>],
               db')
         else (data, db'))"

text \<open>
  A sequence of \<open>save_transaction_to_db\<close> calls, each with its arguments, its clock reading
  and what SQLite does during it.
\<close>

record append_call =
  c_io :: sqlite
  c_now :: string
  c_categoria :: string
  c_tipo :: string
  c_valor :: real
  c_descricao :: string
  c_data :: "string option"

definition append :: "database \<Rightarrow> append_call \<Rightarrow> bool \<times> database" where
  "append db c =
     save_transaction_to_db (c_io c) (c_now c) db (c_categoria c) (c_tipo c) (c_valor c)
       (c_descricao c) (c_data c)"

fun appends :: "database \<Rightarrow> append_call list \<Rightarrow> database" where
  "appends db [] = db"
| "appends db (c # cs) = appends (snd (append db c)) cs"

text \<open>The transaction a successful call records.\<close>

definition recorded :: "append_call \<Rightarrow> transaction" where
  "recorded c =
     \<lparr>Data = (case c_data c of None \<Rightarrow> c_now c | Some d \<Rightarrow> d), Categoria = c_categoria c,
      Tipo = c_tipo c, Valor = c_valor c,
      Descricao = (if c_descricao c = [] then sem_descricao else c_descricao c)\<rparr>"

definition successful :: "append_call list \<Rightarrow> append_call list" where
  "successful cs = filter (\<lambda>c. c_io c = Works) cs"

text \<open>Two calls with the same arguments at the same clock reading, both accepted.\<close>

definition same_call :: append_call where
  "same_call =
     \<lparr>c_io = Works, c_now = ''2024-01-05 10:00:00'', c_categoria = ''Lazer'',
      c_tipo = ''Entrada'', c_valor = 100, c_descricao = ''cinema'', c_data = None\<rparr>"

section \<open>Number formatting\<close>

text \<open>
  Python formats a float by rounding its exact value correctly, ties to the even digit
  (\<open>format(0.125, ".2f")\<close> is \<open>0.12\<close>). \<open>format_f True 2 x\<close> is \<open>f"{x:,.2f}"\<close> and
  \<open>format_f False 1 x\<close> is \<open>f"{x:.1f}"\<close>; \<open>rjust w\<close> is the alignment \<open>>w\<close>;
  \<open>digits n\<close> is \<open>str(n)\<close> of a count.
\<close>

definition round_half_even :: "real \<Rightarrow> int" where
  "round_half_even x =
     (let f = \<lfloor>x\<rfloor>; d = x - of_int f
      in if d < 1 / 2 then f else if 1 / 2 < d then f + 1 else if even f then f else f + 1)"

definition digit_char :: "nat \<Rightarrow> char" where
  "digit_char d = ''0123456789'' ! d"

fun digits :: "nat \<Rightarrow> string" where
  "digits n =
     (if n < 10 then [digit_char n] else digits (n div 10) @ [digit_char (n mod 10)])"

declare digits.simps [simp del]

fun group3 :: "string \<Rightarrow> string" where
  "group3 (a # b # c # d # ds) = a # b # c # CHR '','' # group3 (d # ds)"
| "group3 ds = ds"

definition commas :: "string \<Rightarrow> string" where
  "commas s = rev (group3 (rev s))"

definition zfill :: "nat \<Rightarrow> string \<Rightarrow> string" where
  "zfill w s = replicate (w - length s) CHR ''0'' @ s"

definition rjust :: "nat \<Rightarrow> string \<Rightarrow> string" where
  "rjust w s = replicate (w - length s) CHR '' '' @ s"

definition fixed_point :: "bool \<Rightarrow> nat \<Rightarrow> bool \<Rightarrow> nat \<Rightarrow> string" where
  "fixed_point grouping prec negative n =
     (let whole = digits (n div 10 ^ prec);
          frac = zfill prec (digits (n mod 10 ^ prec))
      in (if negative then ''-'' else []) @ (if grouping then commas whole else whole)
         @ ''.'' @ frac)"

definition format_f :: "bool \<Rightarrow> nat \<Rightarrow> real \<Rightarrow> string" where
  "format_f grouping prec x =
     fixed_point grouping prec (x < 0) (nat (round_half_even (\<bar>x\<bar> * 10 ^ prec)))"

section \<open>Floats\<close>

text \<open>
  A Python float is an IEEE 754 binary64: 53 significant bits, binary exponents from
  -1022 for the normal numbers, and the subnormal numbers below them, spaced 2 to the
  power -1074 apart. Every arithmetic operation gives the float nearest to the exact
  result, a tie going to the float whose last bit is even. \<open>float64 x\<close> is that float for
  the real \<open>x\<close>, so that the quotient of two floats \<open>a\<close> and \<open>b\<close> is \<open>float64 (a / b)\<close>. A
  result of magnitude 2 to the power 1024 or more is \<open>inf\<close> in Python; such amounts are
  outside this model.

  \<open>log2_floor\<close> finds the binary exponent of a positive real by halving and doubling; 1100
  steps reach every exponent of the format.
\<close>

fun log2_floor :: "nat \<Rightarrow> real \<Rightarrow> int" where
  "log2_floor fuel x =
     (if fuel = 0 then 0
      else if 2 \<le> x then log2_floor (fuel - 1) (x / 2) + 1
      else if x < 1 then log2_floor (fuel - 1) (x * 2) - 1
      else 0)"

declare log2_floor.simps [simp del]

definition scale2 :: "int \<Rightarrow> real \<Rightarrow> real" where
  "scale2 k x = (if 0 \<le> k then x * 2 ^ nat k else x / 2 ^ nat (- k))"

definition float64 :: "real \<Rightarrow> real" where
  "float64 x =
     (if x = 0 then 0
      else
        (let e = max (log2_floor 1100 \<bar>x\<bar>) (- 1022)
         in scale2 (e - 52) (of_int (round_half_even (scale2 (52 - e) x)))))"

section \<open>The reporting engine\<close>

text \<open>The two kinds: \<open>'Entrada'\<close> and \<open>'Sa\'ida'\<close> (i with acute is \<open>C3 AD\<close>).\<close>

definition tipo_entrada :: string where
  "tipo_entrada = ''Entrada''"

definition tipo_saida :: string where
  "tipo_saida = ''Sa'' @ [CHR 0xC3, CHR 0xAD] @ ''da''"

text \<open>\<^verbatim>\<open>df[df['Tipo'] == t]['Valor'].sum()\<close>\<close>

definition total :: "string \<Rightarrow> dataframe \<Rightarrow> real" where
  "total t df = sum_list (map Valor (filter (\<lambda>r. Tipo r = t) df))"

text \<open>\<open>groupby(key)[val].sum()\<close>: one entry per key, the keys in ascending order.\<close>

definition groupby_sum ::
  "('a \<Rightarrow> 'k::linorder) \<Rightarrow> ('a \<Rightarrow> real) \<Rightarrow> 'a list \<Rightarrow> ('k \<times> real) list" where
  "groupby_sum key val rows =
     map (\<lambda>k. (k, sum_list (map val (filter (\<lambda>r. key r = k) rows))))
       (sort (remdups (map key rows)))"

definition nl :: string where
  "nl = [CHR 0x0A]"

text \<open>The sentinel of an empty model: "Nenhuma transa\c{c}\~ao registrada ainda."\<close>

definition nenhuma_transacao :: string where
  "nenhuma_transacao =
     ''Nenhuma transa'' @ [CHR 0xC3, CHR 0xA7, CHR 0xC3, CHR 0xA3] @ ''o registrada ainda.''"

text \<open>The loop over \<open>enumerate(gastos_categoria.head(3).items(), 1)\<close>.\<close>

fun top_lines :: "nat \<Rightarrow> (string \<times> real) list \<Rightarrow> string" where
  "top_lines i [] = []"
| "top_lines i ((cat, val) # rest) =
     digits i @ ''. '' @ cat @ '': R$ '' @ format_f True 2 val @ nl @ top_lines (Suc i) rest"

text \<open>
  \<open>get_financial_summary\<close>. The f-string begins with a line break; its two emoji are the
  bytes \<open>F0 9F 93 8A\<close> (bar chart) and \<open>F0 9F 92 B8\<close> (money with wings).
\<close>

definition get_financial_summary :: "dataframe \<Rightarrow> string" where
  "get_financial_summary df =
     (if df = [] then nenhuma_transacao
      else
        (let entrada = total tipo_entrada df;
             saida = total tipo_saida df;
             saldo = entrada - saida;
             gastos_categoria =
               sort_desc snd
                 (groupby_sum Categoria Valor (filter (\<lambda>r. Tipo r = tipo_saida) df))
         in nl @ [CHR 0xF0, CHR 0x9F, CHR 0x93, CHR 0x8A] @ '' RESUMO FINANCEIRO:'' @ nl
            @ ''- Total de Entradas: R$ '' @ format_f True 2 entrada @ nl
            @ ''- Total de Sa'' @ [CHR 0xC3, CHR 0xAD] @ ''das: R$ '' @ format_f True 2 saida @ nl
            @ ''- Saldo Atual: R$ '' @ format_f True 2 saldo @ nl
            @ ''- Total de Transa'' @ [CHR 0xC3, CHR 0xA7, CHR 0xC3, CHR 0xB5] @ ''es: ''
            @ digits (length df) @ nl
            @ nl
            @ [CHR 0xF0, CHR 0x9F, CHR 0x92, CHR 0xB8] @ '' TOP 3 CATEGORIAS DE GASTOS:'' @ nl
            @ top_lines 1 (take 3 gastos_categoria)))"

section \<open>The export generator\<close>

text \<open>
  What an export returns is a \<open>BytesIO\<close> and a format tag. The bytes of a workbook and the
  text that pandas prints for a table are the work of openpyxl and pandas, not of this
  program; the model keeps what the program hands to them: the sheets given to
  \<open>to_excel\<close>, the tables given to \<open>to_csv\<close> and \<open>to_string\<close>, and the literal text around
  them. A table is a DataFrame of transactions (\<open>Frame\<close>) or a derived table with its
  column names and rows of cells (\<open>Grid\<close>, an index written as its first columns).
\<close>

datatype cell = Str string | Num real | Count nat

datatype table = Frame dataframe | Grid "string list" "cell list list"

datatype part = Lit string | To_csv dataframe | To_string table

datatype content =
    Raw string
  | Xlsx "(string \<times> table) list"
  | Utf8_sig "part list"

text \<open>
  The state of the spreadsheet library: importable and working, absent (\<open>ImportError\<close>),
  or raising some other exception while the workbook is written.
\<close>

datatype openpyxl = Installed | Not_installed | Writer_error

datatype error = ZeroDivisionError | WriterException

definition transacoes_name :: string where
  "transacoes_name = ''Transa'' @ [CHR 0xC3, CHR 0xA7, CHR 0xC3, CHR 0xB5] @ ''es''"

text \<open>
  \<open>create_excel_export\<close>: the header line alone for an empty model, the sheet when
  openpyxl works, the CSV of the same DataFrame on \<open>ImportError\<close> and on any other
  exception. Nothing escapes its \<open>try\<close>.
\<close>

definition create_excel_export :: "openpyxl \<Rightarrow> dataframe \<Rightarrow> error + content \<times> string" where
  "create_excel_export lib df =
     (if df = [] then Inr (Raw (''Data,Categoria,Tipo,Valor,Descricao'' @ nl), ''csv'')
      else
        (case lib of
           Installed \<Rightarrow> Inr (Xlsx [(transacoes_name, Frame df)], ''xlsx'')
         | Not_installed \<Rightarrow> Inr (Utf8_sig [To_csv df], ''csv'')
         | Writer_error \<Rightarrow> Inr (Utf8_sig [To_csv df], ''csv'')))"

text \<open>
  In the export generator the totals are floats. pandas returns the sum of a float column
  as a float; the order in which it adds is its own, and the model takes the exact sum
  rounded once, \<open>float64 (total t df)\<close>. The operations the program itself applies to these
  floats (difference, quotient, product) are rounded one by one.

  \<open>.round(2)\<close> of a DataFrame is numpy's: the float is multiplied by 100, rounded to the
  nearest integer (\<open>rint\<close>, ties to even) and divided by 100, each step in floats. The
  argument is read as a float.
\<close>

definition round2 :: "real \<Rightarrow> real" where
  "round2 x = float64 (of_int (round_half_even (float64 (float64 x * 100))) / 100)"

text \<open>
  \<open>df.groupby(['Tipo', 'Categoria'])\<close> with sum, mean (the sum divided by the count) and
  count of \<open>Valor\<close>, rounded; the column names are given by the caller (they differ between
  the sheet and the report).
\<close>

definition resumo_categoria :: "string list \<Rightarrow> dataframe \<Rightarrow> table" where
  "resumo_categoria names df =
     Grid ([''Tipo'', ''Categoria''] @ names)
       (map (\<lambda>(t, c).
               (let vs = map Valor (filter (\<lambda>r. Tipo r = t \<and> Categoria r = c) df)
                in [Str t, Str c, Num (round2 (sum_list vs)),
                    Num (round2 (float64 (sum_list vs) / real (length vs))), Count (length vs)]))
          (sort (remdups (map (\<lambda>r. (Tipo r, Categoria r)) df))))"

text \<open>
  A parsed timestamp; only year and month are read (\<open>dt.to_period('M')\<close>). The parser
  \<open>pd.to_datetime(column, errors='coerce')\<close> belongs to pandas and is a parameter
  \<open>to_datetime\<close> of the model: given the whole column (pandas may infer the format from
  it) and one entry, it returns the timestamp or \<open>None\<close> for \<open>NaT\<close>.
\<close>

record datetime =
  dt_year :: nat
  dt_month :: nat

type_synonym parser = "string list \<Rightarrow> string \<Rightarrow> datetime option"

text \<open>\<open>str\<close> of a monthly period: \<open>2024-01\<close>.\<close>

definition period_m :: "datetime \<Rightarrow> string" where
  "period_m dt = zfill 4 (digits (dt_year dt)) @ ''-'' @ zfill 2 (digits (dt_month dt))"

text \<open>The rows left by \<open>dropna(subset=['Data'])\<close>, each with its month.\<close>

definition parsed_rows :: "parser \<Rightarrow> dataframe \<Rightarrow> (string \<times> transaction) list" where
  "parsed_rows to_datetime df =
     List.map_filter
       (\<lambda>r. map_option (\<lambda>dt. (period_m dt, r)) (to_datetime (map Data df) (Data r))) df"

text \<open>\<open>df_copy.groupby(['M\^es', 'Tipo']).agg({'Valor': 'sum'}).round(2)\<close>\<close>

definition resumo_mensal :: "parser \<Rightarrow> dataframe \<Rightarrow> ((string \<times> string) \<times> real) list" where
  "resumo_mensal to_datetime df =
     map (\<lambda>(k, v). (k, round2 v))
       (groupby_sum (\<lambda>(m, r). (m, Tipo r)) (\<lambda>(m, r). Valor r) (parsed_rows to_datetime df))"

text \<open>
  The savings rate, \<^verbatim>\<open>(saldo/entrada_total*100) if entrada_total > 0 else 0\<close>, on floats.
  Division is Python's: a zero divisor raises (on numpy's floats it would give \<open>inf\<close> or
  \<open>nan\<close> with a warning instead).
\<close>

definition truediv :: "real \<Rightarrow> real \<Rightarrow> error + real" where
  "truediv a b = (if b = 0 then Inl ZeroDivisionError else Inr (float64 (a / b)))"

definition taxa_poupanca :: "real \<Rightarrow> real \<Rightarrow> error + real" where
  "taxa_poupanca saldo entrada_total =
     (if entrada_total > 0
      then (case truediv saldo entrada_total of
              Inl e \<Rightarrow> Inl e
            | Inr q \<Rightarrow> Inr (float64 (q * 100)))
      else Inr 0)"

text \<open>The DataFrame \<open>indicadores\<close> of the sheet \<open>Indicadores\<close>.\<close>

definition indicadores :: "dataframe \<Rightarrow> error + table" where
  "indicadores df =
     (let entrada_total = float64 (total tipo_entrada df);
          saida_total = float64 (total tipo_saida df);
          saldo = float64 (entrada_total - saida_total)
      in case taxa_poupanca saldo entrada_total of
           Inl e \<Rightarrow> Inl e
         | Inr taxa \<Rightarrow>
             Inr (Grid [''Indicador'', ''Valor'']
               [[Str ''Total Entradas'', Str (''R$ '' @ format_f True 2 entrada_total)],
                [Str (''Total Sa'' @ [CHR 0xC3, CHR 0xAD] @ ''das''),
                 Str (''R$ '' @ format_f True 2 saida_total)],
                [Str ''Saldo'', Str (''R$ '' @ format_f True 2 saldo)],
                [Str (''Taxa de Poupan'' @ [CHR 0xC3, CHR 0xA7] @ ''a''),
                 Str (format_f False 1 taxa @ ''%'')],
                [Str (''Total Transa'' @ [CHR 0xC3, CHR 0xA7, CHR 0xC3, CHR 0xB5] @ ''es''),
                 Count (length df)]]))"

text \<open>\<open>nlargest(min(20, n), 'Valor')\<close> of the expenses, four of their columns.\<close>

definition top_gastos :: "dataframe \<Rightarrow> table" where
  "top_gastos df =
     (let saidas = filter (\<lambda>r. Tipo r = tipo_saida) df
      in Grid [''Data'', ''Categoria'', ''Valor'',
               ''Descri'' @ [CHR 0xC3, CHR 0xA7, CHR 0xC3, CHR 0xA3] @ ''o'']
           (map (\<lambda>r. [Str (Data r), Str (Categoria r), Num (Valor r), Str (Descricao r)])
              (take (min 20 (length saidas)) (sort_desc Valor saidas))))"

text \<open>The sheets of the budget workbook, in the order they are written.\<close>

definition budget_sheets :: "parser \<Rightarrow> dataframe \<Rightarrow> table \<Rightarrow> (string \<times> table) list" where
  "budget_sheets to_datetime df ind =
     [(transacoes_name, Frame (sort_desc Data df))]
     @ (if length df > 0
        then [(''Resumo Categorias'',
               resumo_categoria [''Total'', ''M'' @ [CHR 0xC3, CHR 0xA9] @ ''dia'', ''Quantidade''] df)]
        else [])
     @ (if length (parsed_rows to_datetime df) > 0
        then [(''Resumo Mensal'',
               Grid [''M'' @ [CHR 0xC3, CHR 0xAA] @ ''s'', ''Tipo'', ''Valor'']
                 (map (\<lambda>((m, t), v). [Str m, Str t, Num v]) (resumo_mensal to_datetime df)))]
        else [])
     @ [(''Indicadores'', ind)]
     @ (if length (filter (\<lambda>r. Tipo r = tipo_saida) df) > 0
        then [(''Top 20 Gastos'', top_gastos df)]
        else [])"

text \<open>The boxes of the text report: 62 double bars between the corners.\<close>

definition box_top :: string where
  "box_top = [CHR 0xE2, CHR 0x95, CHR 0x94] @ concat (replicate 62 [CHR 0xE2, CHR 0x95, CHR 0x90])
     @ [CHR 0xE2, CHR 0x95, CHR 0x97]"

definition box_bottom :: string where
  "box_bottom = [CHR 0xE2, CHR 0x95, CHR 0x9A] @ concat (replicate 62 [CHR 0xE2, CHR 0x95, CHR 0x90])
     @ [CHR 0xE2, CHR 0x95, CHR 0x9D]"

definition box_line :: "string \<Rightarrow> string" where
  "box_line s = [CHR 0xE2, CHR 0x95, CHR 0x91] @ s @ [CHR 0xE2, CHR 0x95, CHR 0x91]"

text \<open>
  The indicator lines of the report (source lines 543 to 547). \<open>agora\<close> below stands for
  \<open>datetime.now().strftime('%d/%m/%Y %H:%M')\<close>.
\<close>

definition indicadores_txt :: "dataframe \<Rightarrow> error + string" where
  "indicadores_txt df =
     (let entrada_total = float64 (total tipo_entrada df);
          saida_total = float64 (total tipo_saida df);
          saldo = float64 (entrada_total - saida_total)
      in case taxa_poupanca saldo entrada_total of
           Inl e \<Rightarrow> Inl e
         | Inr taxa \<Rightarrow>
             Inr ([CHR 0xF0, CHR 0x9F, CHR 0x92, CHR 0xB0] @ '' Total Entradas:     R$ ''
                  @ rjust 15 (format_f True 2 entrada_total) @ nl
                  @ [CHR 0xF0, CHR 0x9F, CHR 0x92, CHR 0xB8] @ '' Total Sa'' @ [CHR 0xC3, CHR 0xAD]
                  @ ''das:       R$ '' @ rjust 15 (format_f True 2 saida_total) @ nl
                  @ [CHR 0xF0, CHR 0x9F, CHR 0x93, CHR 0x8A] @ '' Saldo Atual:        R$ ''
                  @ rjust 15 (format_f True 2 saldo) @ nl
                  @ [CHR 0xF0, CHR 0x9F, CHR 0x93, CHR 0x88] @ '' Taxa de Poupan''
                  @ [CHR 0xC3, CHR 0xA7] @ ''a:   '' @ rjust 14 (format_f False 1 taxa) @ ''%'' @ nl
                  @ [CHR 0xF0, CHR 0x9F, CHR 0x94, CHR 0xA2] @ '' Total Transa''
                  @ [CHR 0xC3, CHR 0xA7, CHR 0xC3, CHR 0xB5] @ ''es:   ''
                  @ rjust 18 (digits (length df)) @ nl))"

definition report :: "string \<Rightarrow> dataframe \<Rightarrow> string \<Rightarrow> part list" where
  "report agora df ind =
     [Lit (box_top @ nl
           @ box_line (''        RELAT'' @ [CHR 0xC3, CHR 0x93]
                       @ ''RIO FINANCEIRO NEURALFINANCE                   '') @ nl
           @ box_line (''        Data: '' @ agora @ replicate 36 CHR '' '') @ nl
           @ box_bottom @ nl
           @ nl
           @ box_top @ nl
           @ box_line ''                  INDICADORES PRINCIPAIS                      '' @ nl
           @ box_bottom @ nl
           @ nl
           @ ind
           @ nl
           @ box_top @ nl
           @ box_line ''                   RESUMO POR CATEGORIA                       '' @ nl
           @ box_bottom @ nl
           @ nl)]
     @ (if length df > 0
        then [To_string (resumo_categoria
                [''Total (R$)'', ''M'' @ [CHR 0xC3, CHR 0xA9] @ ''dia (R$)'', ''Quantidade''] df),
              Lit (nl @ nl)]
        else [])
     @ [Lit (box_top @ nl
             @ box_line (''                  TODAS AS TRANSA'' @ [CHR 0xC3, CHR 0x87, CHR 0xC3, CHR 0x95]
                         @ ''ES                         '') @ nl
             @ box_bottom @ nl
             @ nl),
        To_string (Frame (sort_desc Data df))]"

text \<open>
  \<open>create_budget_spreadsheet\<close>: the message alone for an empty model; the workbook when
  openpyxl works; the text report on \<open>ImportError\<close>, the only exception it catches.
\<close>

definition create_budget_spreadsheet ::
  "openpyxl \<Rightarrow> parser \<Rightarrow> string \<Rightarrow> dataframe \<Rightarrow> error + content \<times> string" where
  "create_budget_spreadsheet lib to_datetime agora df =
     (if df = [] then Inr (Raw (''Nenhuma transacao registrada ainda.'' @ nl), ''csv'')
      else
        (case lib of
           Installed \<Rightarrow>
             (case indicadores df of
                Inl e \<Rightarrow> Inl e
              | Inr ind \<Rightarrow> Inr (Xlsx (budget_sheets to_datetime df ind), ''xlsx''))
         | Not_installed \<Rightarrow>
             (case indicadores_txt df of
                Inl e \<Rightarrow> Inl e
              | Inr ind \<Rightarrow> Inr (Utf8_sig (report agora df ind), ''txt''))
         | Writer_error \<Rightarrow> Inl WriterException))"

section \<open>Reading an export\<close>

text \<open>
  The transactions an export holds: the rows of every DataFrame of transactions in it.
  Derived tables (summaries, indicators, the top expenses) are not counted.
\<close>

fun table_transactions :: "table \<Rightarrow> transaction multiset" where
  "table_transactions (Frame df) = mset df"
| "table_transactions (Grid names rows) = {#}"

fun part_transactions :: "part \<Rightarrow> transaction multiset" where
  "part_transactions (Lit s) = {#}"
| "part_transactions (To_csv df) = mset df"
| "part_transactions (To_string t) = table_transactions t"

fun content_transactions :: "content \<Rightarrow> transaction multiset" where
  "content_transactions (Raw s) = {#}"
| "content_transactions (Xlsx sheets) = sum_list (map (\<lambda>(name, t). table_transactions t) sheets)"
| "content_transactions (Utf8_sig ts) = sum_list (map part_transactions ts)"

definition exported_transactions :: "error + content \<times> string \<Rightarrow> transaction multiset" where
  "exported_transactions res =
     (case res of Inl e \<Rightarrow> {#} | Inr (c, tag) \<Rightarrow> content_transactions c)"












text \<open>
  The concrete format of a payload, by the three kinds of payload the program builds: a
  workbook (tagged \<open>xlsx\<close>), delimited text, that is fields separated by commas as
  \<open>to_csv\<close> writes them (tagged \<open>csv\<close>), and plain text (tagged \<open>txt\<close>).
\<close>

fun delimited :: "part \<Rightarrow> bool" where
  "delimited (To_csv df) = True"
| "delimited (Lit s) = False"
| "delimited (To_string t) = False"

fun concrete_format :: "content \<Rightarrow> string" where
  "concrete_format (Xlsx sheets) = ''xlsx''"
| "concrete_format (Raw s) = (if CHR '','' \<in> set s then ''csv'' else ''txt'')"
| "concrete_format (Utf8_sig ps) = (if list_all delimited ps then ''csv'' else ''txt'')"











section \<open>Substring search\<close>

lemma starts_with_iff: "starts_with s k \<longleftrightarrow> (\<exists>r. s = k @ r)"
  by (induction s k rule: starts_with.induct) auto

lemma str_contains_iff: "str_contains s k \<longleftrightarrow> (\<exists>p r. s = p @ k @ r)"
proof (induction s)
  case Nil
  then show ?case by simp
next
  case (Cons c cs)
  show ?case
  proof
    assume "str_contains (c # cs) k"
    then consider "starts_with (c # cs) k" | "str_contains cs k" by auto
    then show "\<exists>p r. c # cs = p @ k @ r"
    proof cases
      case 1
      then obtain r where "c # cs = k @ r" using starts_with_iff by blast
      then have "c # cs = [] @ k @ r" by simp
      then show ?thesis by blast
    next
      case 2
      then obtain p r where "cs = p @ k @ r" using Cons.IH by blast
      then have "c # cs = (c # p) @ k @ r" by simp
      then show ?thesis by blast
    qed
  next
    assume "\<exists>p r. c # cs = p @ k @ r"
    then obtain p r where pr: "c # cs = p @ k @ r" by blast
    show "str_contains (c # cs) k"
    proof (cases p)
      case Nil
      with pr have "starts_with (c # cs) k" using starts_with_iff by auto
      then show ?thesis by simp
    next
      case (Cons a p')
      with pr have "cs = p' @ k @ r" by simp
      then have "str_contains cs k" using Cons.IH by blast
      then show ?thesis by simp
    qed
  qed
qed

section \<open>Descending sort\<close>

lemma mset_insort_desc: "mset (insort_desc key x xs) = add_mset x (mset xs)"
  by (induction xs) auto

lemma mset_sort_desc: "mset (sort_desc key xs) = mset xs"
  by (induction xs) (auto simp: sort_desc_def mset_insort_desc)

lemma set_insort_desc: "set (insort_desc key x xs) = insert x (set xs)"
  by (induction xs) auto

lemma set_sort_desc: "set (sort_desc key xs) = set xs"
  using mset_sort_desc [of key xs] by (metis set_mset_mset)

lemma sorted_insort_desc:
  "sorted_wrt (\<lambda>a b. key b \<le> key a) xs \<Longrightarrow>
   sorted_wrt (\<lambda>a b. key b \<le> key a) (insort_desc key x xs)"
  by (induction xs) (auto simp: set_insort_desc)

lemma sorted_sort_desc: "sorted_wrt (\<lambda>a b. key b \<le> key a) (sort_desc key xs)"
  by (induction xs) (auto simp: sort_desc_def sorted_insort_desc)

section \<open>The ledger store: appending and loading\<close>

lemma append_rows:
  "map select_columns (transacoes (snd (append db c))) =
     map select_columns (transacoes db) @ (if c_io c = Works then [recorded c] else [])"
  by (cases "c_io c")
     (simp_all add: append_def save_transaction_to_db_def Let_def select_columns_def
        recorded_def)

lemma appends_rows:
  "map select_columns (transacoes (appends db cs)) =
     map select_columns (transacoes db) @ map recorded (successful cs)"
  by (induction cs arbitrary: db) (simp_all add: successful_def append_rows)

lemma id_le_foldr_max: "r \<in> set rs \<Longrightarrow> r_id r \<le> foldr max (map r_id rs) s"
  by (induction rs) (auto simp: max_def)

lemma next_id_fresh: "r \<in> set (transacoes db) \<Longrightarrow> r_id r < next_id db"
  by (simp add: next_id_def id_le_foldr_max less_Suc_eq_le)

lemma append_distinct:
  "distinct (map r_id (transacoes db)) \<Longrightarrow>
   distinct (map r_id (transacoes (snd (append db c))))"
proof (cases "c_io c")
  case Works
  assume d: "distinct (map r_id (transacoes db))"
  have "next_id db \<notin> r_id ` set (transacoes db)"
    using next_id_fresh [of _ db] by fastforce
  with d Works show ?thesis
    by (simp add: append_def save_transaction_to_db_def Let_def)
next
  case Raises
  assume "distinct (map r_id (transacoes db))"
  with Raises show ?thesis
    by (simp add: append_def save_transaction_to_db_def)
qed

lemma appends_distinct:
  "distinct (map r_id (transacoes db)) \<Longrightarrow>
   distinct (map r_id (transacoes (appends db cs)))"
  by (induction cs arbitrary: db) (simp_all add: append_distinct)

text \<open>
  C1, as stated, fails in its last part: the rows that \<open>load_transactions_from_db\<close>
  returns carry no id. Two accepted calls with the same arguments get the ids 1 and 2 in
  the table, and the loaded DataFrame holds the same row twice.
\<close>

theorem load_returns_no_id_counterexample:
  "load_transactions_from_db Works (appends init_database [same_call, same_call]) =
     [recorded same_call, recorded same_call]
   \<and> \<not> distinct (load_transactions_from_db Works (appends init_database [same_call, same_call]))
   \<and> map r_id (transacoes (appends init_database [same_call, same_call])) = [1, 2]"
  by (simp add: load_transactions_from_db_def append_def save_transaction_to_db_def
      init_database_def same_call_def sort_desc_def select_columns_def recorded_def
      next_id_def Let_def)

text \<open>
  C1, amended. For every sequence of \<open>save_transaction_to_db\<close> calls on a new database,
  \<open>load_transactions_from_db\<close> returns exactly the transactions of the successful calls
  (timestamp, category, kind, amount and description, the description replaced by the
  placeholder when empty), sorted by timestamp text descending, each amount the value
  passed to the call; and the ids are unique in the table, which is where they stay:
  the loaded rows do not carry them.
\<close>

theorem load_after_appends:
  "mset (load_transactions_from_db Works (appends init_database cs)) =
     mset (map recorded (successful cs))
   \<and> sorted_wrt (\<lambda>a b. Data b \<le> Data a)
       (load_transactions_from_db Works (appends init_database cs))
   \<and> mset (map Valor (load_transactions_from_db Works (appends init_database cs))) =
       mset (map c_valor (successful cs))
   \<and> distinct (map r_id (transacoes (appends init_database cs)))"
proof -
  let ?l = "load_transactions_from_db Works (appends init_database cs)"
  have m: "mset ?l = mset (map recorded (successful cs))"
    by (simp add: load_transactions_from_db_def mset_sort_desc appends_rows
        init_database_def)
  have "mset (map Valor ?l) = image_mset Valor (mset ?l)" by simp
  also have "\<dots> = mset (map Valor (map recorded (successful cs)))"
    by (simp only: m mset_map)
  also have "\<dots> = mset (map c_valor (successful cs))"
    by (simp add: recorded_def comp_def)
  finally have v: "mset (map Valor ?l) = mset (map c_valor (successful cs))" .
  have s: "sorted_wrt (\<lambda>a b. Data b \<le> Data a) ?l"
    by (simp add: load_transactions_from_db_def sorted_sort_desc)
  have d: "distinct (map r_id (transacoes (appends init_database cs)))"
    by (rule appends_distinct) (simp add: init_database_def)
  from m s v d show ?thesis by blast
qed

section \<open>The ledger store: failures\<close>


text \<open>
  C10. If the store write fails (\<open>save_transaction_to_db\<close> returns False),
  \<open>add_transaction\<close> returns the in-memory DataFrame unchanged, and the database is
  unchanged as well.
\<close>

theorem add_transaction_store_failure:
  "fst (save_transaction_to_db io now db categoria tipo valor descricao (Some now)) = False
   \<Longrightarrow> add_transaction io now db data categoria tipo valor descricao = (data, db)"
  by (cases io) (simp_all add: add_transaction_def save_transaction_to_db_def Let_def)

theorem add_transaction_store_failure_witness:
  "fst (save_transaction_to_db Raises ''2024-01-05 10:00:00'' init_database ''Lazer''
          ''Entrada'' 100 ''cinema'' (Some ''2024-01-05 10:00:00'')) = False
   \<and> add_transaction Raises ''2024-01-05 10:00:00'' init_database [recorded same_call]
       ''Lazer'' ''Entrada'' 100 ''cinema'' = ([recorded same_call], init_database)"
  using add_transaction_store_failure [of Raises "''2024-01-05 10:00:00''" init_database
      "''Lazer''" "''Entrada''" 100 "''cinema''" "[recorded same_call]"]
  by (simp add: save_transaction_to_db_def)

section \<open>Evaluating the formatter\<close>

lemma replicate_numeral: "replicate (numeral k) x = x # replicate (pred_numeral k) x"
  by (simp add: numeral_eq_Suc)

lemmas fmt = format_f_def fixed_point_def round_half_even_def digits.simps digit_char_def
  commas_def zfill_def rjust_def Let_def replicate_numeral

lemma format_100: "format_f True 2 100 = ''100.00''"
  by (simp add: fmt)

lemma format_40: "format_f True 2 40 = ''40.00''"
  by (simp add: fmt)

lemma format_60: "format_f True 2 60 = ''60.00''"
  by (simp add: fmt)

lemma digits_1: "digits (Suc 0) = ''1''"
  by (simp add: fmt)

lemma digits_2: "digits (Suc (Suc 0)) = ''2''"
  by (simp add: fmt)

section \<open>The financial summary\<close>

text \<open>
  C2. \<open>get_financial_summary\<close> returns the "no data" sentinel on the empty model; on a
  model of exactly one Entrada of 100 and one Sa\'ida of 40 (whatever their dates,
  categories and descriptions) its text reports total income 100.00, total expense
  40.00, balance 60.00 and 2 transactions.
\<close>

theorem get_financial_summary_examples:
  "get_financial_summary [] =
     ''Nenhuma transa'' @ [CHR 0xC3, CHR 0xA7, CHR 0xC3, CHR 0xA3] @ ''o registrada ainda.''
   \<and> get_financial_summary
       [\<lparr>Data = d1, Categoria = c1, Tipo = ''Entrada'', Valor = 100, Descricao = s1\<rparr>,
        \<lparr>Data = d2, Categoria = c2, Tipo = ''Sa'' @ [CHR 0xC3, CHR 0xAD] @ ''da'', Valor = 40,
         Descricao = s2\<rparr>] =
     [CHR 0x0A, CHR 0xF0, CHR 0x9F, CHR 0x93, CHR 0x8A] @ '' RESUMO FINANCEIRO:'' @ [CHR 0x0A]
     @ ''- Total de Entradas: R$ 100.00'' @ [CHR 0x0A]
     @ ''- Total de Sa'' @ [CHR 0xC3, CHR 0xAD] @ ''das: R$ 40.00'' @ [CHR 0x0A]
     @ ''- Saldo Atual: R$ 60.00'' @ [CHR 0x0A]
     @ ''- Total de Transa'' @ [CHR 0xC3, CHR 0xA7, CHR 0xC3, CHR 0xB5] @ ''es: 2''
     @ [CHR 0x0A, CHR 0x0A]
     @ [CHR 0xF0, CHR 0x9F, CHR 0x92, CHR 0xB8] @ '' TOP 3 CATEGORIAS DE GASTOS:'' @ [CHR 0x0A]
     @ ''1. '' @ c2 @ '': R$ 40.00'' @ [CHR 0x0A]"
proof -
  let ?df = "[\<lparr>Data = d1, Categoria = c1, Tipo = ''Entrada'', Valor = 100, Descricao = s1\<rparr>,
        \<lparr>Data = d2, Categoria = c2, Tipo = ''Sa'' @ [CHR 0xC3, CHR 0xAD] @ ''da'', Valor = 40,
         Descricao = s2\<rparr>]"
  have e: "total tipo_entrada ?df = 100"
    by (simp add: total_def tipo_entrada_def)
  have s: "total tipo_saida ?df = 40"
    by (simp add: total_def tipo_saida_def)
  have g: "sort_desc snd (groupby_sum Categoria Valor (filter (\<lambda>r. Tipo r = tipo_saida) ?df))
             = [(c2, 40)]"
    by (simp add: groupby_sum_def sort_desc_def tipo_saida_def)
  have empty: "get_financial_summary [] =
     ''Nenhuma transa'' @ [CHR 0xC3, CHR 0xA7, CHR 0xC3, CHR 0xA3] @ ''o registrada ainda.''"
    by (simp add: get_financial_summary_def nenhuma_transacao_def)
  have two: "get_financial_summary ?df =
     [CHR 0x0A, CHR 0xF0, CHR 0x9F, CHR 0x93, CHR 0x8A] @ '' RESUMO FINANCEIRO:'' @ [CHR 0x0A]
     @ ''- Total de Entradas: R$ 100.00'' @ [CHR 0x0A]
     @ ''- Total de Sa'' @ [CHR 0xC3, CHR 0xAD] @ ''das: R$ 40.00'' @ [CHR 0x0A]
     @ ''- Saldo Atual: R$ 60.00'' @ [CHR 0x0A]
     @ ''- Total de Transa'' @ [CHR 0xC3, CHR 0xA7, CHR 0xC3, CHR 0xB5] @ ''es: 2''
     @ [CHR 0x0A, CHR 0x0A]
     @ [CHR 0xF0, CHR 0x9F, CHR 0x92, CHR 0xB8] @ '' TOP 3 CATEGORIAS DE GASTOS:'' @ [CHR 0x0A]
     @ ''1. '' @ c2 @ '': R$ 40.00'' @ [CHR 0x0A]"
    unfolding get_financial_summary_def Let_def e s g
    by (simp add: format_100 format_40 format_60 digits_1 digits_2 nl_def)
  from empty two show ?thesis by simp
qed

section \<open>Evaluating floats\<close>

lemmas fl = float64_def scale2_def log2_floor.simps round_half_even_def Let_def




lemma float64_eighth: "float64 (1 / 8) = 1 / 8"
  by (simp add: fl)





section \<open>The export generator: the savings rate\<close>

lemma taxa_poupanca_eq:
  "taxa_poupanca saldo entrada_total =
     Inr (if entrada_total > 0 then float64 (float64 (saldo / entrada_total) * 100) else 0)"
  by (simp add: taxa_poupanca_def truediv_def)

lemma indicadores_returns: "\<exists>g. indicadores df = Inr (Grid [''Indicador'', ''Valor''] g)"
  by (simp add: indicadores_def taxa_poupanca_eq Let_def)

lemma indicadores_txt_returns: "\<exists>s. indicadores_txt df = Inr s"
  by (simp add: indicadores_txt_def taxa_poupanca_eq Let_def)
















section \<open>The export generator: what each path holds\<close>

lemma excel_export_transactions:
  "exported_transactions (create_excel_export lib df) = mset df"
  by (cases lib) (simp_all add: exported_transactions_def create_excel_export_def)

lemma budget_sheets_transactions:
  "content_transactions (Xlsx (budget_sheets to_datetime df (Grid ns g))) = mset df"
  by (simp add: budget_sheets_def mset_sort_desc resumo_categoria_def top_gastos_def Let_def)

lemma report_transactions:
  "content_transactions (Utf8_sig (report agora df ind)) = mset df"
  by (simp add: report_def mset_sort_desc resumo_categoria_def)

lemma budget_xlsx_transactions:
  "exported_transactions (create_budget_spreadsheet Installed to_datetime agora df) = mset df"
proof (cases "df = []")
  case True
  then show ?thesis
    by (simp add: exported_transactions_def create_budget_spreadsheet_def)
next
  case False
  obtain g where g: "indicadores df = Inr (Grid [''Indicador'', ''Valor''] g)"
    using indicadores_returns by blast
  from False have "create_budget_spreadsheet Installed to_datetime agora df =
      Inr (Xlsx (budget_sheets to_datetime df (Grid [''Indicador'', ''Valor''] g)), ''xlsx'')"
    by (simp add: create_budget_spreadsheet_def g)
  then show ?thesis
    by (simp add: exported_transactions_def budget_sheets_transactions
        del: content_transactions.simps)
qed

lemma budget_txt_transactions:
  "exported_transactions (create_budget_spreadsheet Not_installed to_datetime agora df) =
     mset df"
proof (cases "df = []")
  case True
  then show ?thesis
    by (simp add: exported_transactions_def create_budget_spreadsheet_def)
next
  case False
  obtain s where s: "indicadores_txt df = Inr s"
    using indicadores_txt_returns by blast
  from False have "create_budget_spreadsheet Not_installed to_datetime agora df =
      Inr (Utf8_sig (report agora df s), ''txt'')"
    by (simp add: create_budget_spreadsheet_def s)
  then show ?thesis
    by (simp add: exported_transactions_def report_transactions
        del: content_transactions.simps)
qed

text \<open>
  C4. For every transaction model, the fallback path of each export (the CSV of
  \<open>create_excel_export\<close>, the text report of \<open>create_budget_spreadsheet\<close>) holds exactly
  the transactions that the spreadsheet path holds, which are all the transactions of
  the model, each with its amount and category: the fallback is not truncated.
\<close>

theorem fallback_keeps_every_transaction:
  "exported_transactions (create_excel_export Not_installed df) =
     exported_transactions (create_excel_export Installed df)
   \<and> exported_transactions (create_excel_export Writer_error df) =
     exported_transactions (create_excel_export Installed df)
   \<and> exported_transactions (create_budget_spreadsheet Not_installed to_datetime agora df) =
     exported_transactions (create_budget_spreadsheet Installed to_datetime agora df)
   \<and> exported_transactions (create_excel_export Not_installed df) = mset df
   \<and> exported_transactions (create_budget_spreadsheet Not_installed to_datetime agora df) =
     mset df
   \<and> image_mset (\<lambda>r. (Categoria r, Valor r))
       (exported_transactions (create_budget_spreadsheet Not_installed to_datetime agora df)) =
     image_mset (\<lambda>r. (Categoria r, Valor r)) (mset df)"
  by (simp add: excel_export_transactions budget_xlsx_transactions budget_txt_transactions)

section \<open>The export generator: the empty model\<close>

text \<open>
  For a non-empty model the tag of every export is the concrete format of its payload:
  a workbook is tagged \<open>xlsx\<close>, the output of \<open>to_csv\<close> is tagged \<open>csv\<close>, the text report is
  tagged \<open>txt\<close>.
\<close>

lemma tag_is_concrete_format:
  "create_excel_export lib (r # df) = Inr (c, tag) \<Longrightarrow> concrete_format c = tag"
  "create_budget_spreadsheet lib to_datetime agora (r # df) = Inr (c, tag) \<Longrightarrow>
     concrete_format c = tag"
proof -
  show "create_excel_export lib (r # df) = Inr (c, tag) \<Longrightarrow> concrete_format c = tag"
    by (cases lib) (auto simp: create_excel_export_def)
  obtain g where g: "indicadores (r # df) = Inr (Grid [''Indicador'', ''Valor''] g)"
    using indicadores_returns by blast
  obtain s where s: "indicadores_txt (r # df) = Inr s"
    using indicadores_txt_returns by blast
  show "create_budget_spreadsheet lib to_datetime agora (r # df) = Inr (c, tag) \<Longrightarrow>
     concrete_format c = tag"
    by (cases lib) (auto simp: create_budget_spreadsheet_def g s report_def)
qed



section \<open>The export generator: the monthly breakdown\<close>










section \<open>Export-intent detection: results\<close>

text \<open>
  C6. Keyword detection answers true on the message "pode gerar um or\c{c}amento?" (the
  c with cedilla written as its two bytes) and false on the message "qual meu saldo?".
\<close>

theorem parse_ai_request_for_export_examples:
  "parse_ai_request_for_export (''pode gerar um or'' @ [CHR 0xC3, CHR 0xA7] @ ''amento?'') = True
   \<and> parse_ai_request_for_export ''qual meu saldo?'' = False"
  by code_simp

text \<open>
  C7, as stated, fails: the message "budget" contains the keyword "budget" of the
  English set, and detection answers false. The list in the code is Portuguese.
\<close>

theorem parse_ai_request_for_export_english_counterexample:
  "str_contains ''budget'' ''budget''
   \<and> ''budget'' \<in> set [''spreadsheet'', ''excel'', ''export'', ''download'', ''budget'',
                           ''report'', ''detailed analysis'']
   \<and> parse_ai_request_for_export ''budget'' = False"
  by code_simp

text \<open>
  C7, amended. For every user message, detection answers true if and only if the
  lower-cased message contains, as a substring, at least one of the nine keywords of the
  code: planilha, excel, exportar, download, baixar, or\c{c}amento, relat\'orio,
  an\'alise detalhada, spreadsheet.
\<close>

theorem parse_ai_request_for_export_iff:
  "parse_ai_request_for_export user_message \<longleftrightarrow>
     (\<exists>k p r. k \<in> set export_keywords \<and> lower user_message = p @ k @ r)"
  by (auto simp: parse_ai_request_for_export_def list_ex_iff str_contains_iff)

end
